theory Spec2Isabelle
  imports Main
begin

section \<open>JavaScript values\<close>

text \<open>
  The reducer of \<^verbatim>\<open>src/core/reducer.js\<close> is embedded as HOL functions. The user state
  \<^verbatim>\<open>G\<close>, the payload of a move and the snapshot \<^verbatim>\<open>_initial\<close> are untyped JavaScript
  values; the framework state (\<^verbatim>\<open>ctx\<close>, \<^verbatim>\<open>log\<close>, \<^verbatim>\<open>_id\<close>) is typed the way the source
  initialises it.

  Numbers are the integers together with \<^verbatim>\<open>NaN\<close>: fractions, infinities and the loss of
  precision of doubles beyond \<^verbatim>\<open>2^53\<close> are not represented. An object is the list of its
  properties in insertion order; a property lookup reads the first binding of a key.
\<close>

datatype number = Finite int | NaN

datatype jsval = Undefined | Null | Bool bool | Num number | Str string
  | Arr "jsval list" | Obj "(string \<times> jsval) list"

text \<open>The binary \<^verbatim>\<open>+\<close> on two numbers and the remainder \<^verbatim>\<open>%\<close>, whose result takes the
  sign of the dividend and is \<^verbatim>\<open>NaN\<close> for a zero divisor.\<close>

fun js_add :: "number \<Rightarrow> number \<Rightarrow> number" where
  "js_add (Finite a) (Finite b) = Finite (a + b)"
| "js_add _ _ = NaN"

fun js_rem :: "number \<Rightarrow> number \<Rightarrow> number" where
  "js_rem (Finite a) (Finite b) = (if b = 0 then NaN else Finite (sgn a * (\<bar>a\<bar> mod \<bar>b\<bar>)))"
| "js_rem _ _ = NaN"

text \<open>\<^verbatim>\<open>x + ""\<close> on a number: its decimal numeral.\<close>

fun digits :: "nat \<Rightarrow> string" where
  "digits n =
     (if n < 10 then [''0123456789'' ! n]
      else digits (n div 10) @ [''0123456789'' ! (n mod 10)])"

fun to_string :: "number \<Rightarrow> string" where
  "to_string NaN = ''NaN''"
| "to_string (Finite i) = (if i < 0 then CHR ''-'' # digits (nat (- i)) else digits (nat i))"

text \<open>
  The unary \<^verbatim>\<open>+\<close> on a string. The empty string reads as 0, an optionally signed run
  of decimal digits as that integer. Every other string reads as \<^verbatim>\<open>NaN\<close> here;
  JavaScript also reads numerals with white space around them, a fraction, an exponent
  or a radix prefix, whose values the integer model of numbers does not cover.
\<close>

definition is_digit :: "char \<Rightarrow> bool" where
  "is_digit c = (c \<in> set ''0123456789'')"

definition digit_value :: "char \<Rightarrow> nat" where
  "digit_value c = of_char c - 48"

fun parse_digits :: "nat \<Rightarrow> string \<Rightarrow> nat option" where
  "parse_digits acc [] = Some acc"
| "parse_digits acc (c # cs) =
     (if is_digit c then parse_digits (10 * acc + digit_value c) cs else None)"

definition parse_nat :: "string \<Rightarrow> nat option" where
  "parse_nat s = (if s = [] then None else parse_digits 0 s)"

definition to_number :: "string \<Rightarrow> number" where
  "to_number s =
     (case s of
        [] \<Rightarrow> Finite 0
      | c # r \<Rightarrow>
          if c = CHR ''-'' then (case parse_nat r of Some n \<Rightarrow> Finite (- int n) | None \<Rightarrow> NaN)
          else if c = CHR ''+'' then (case parse_nat r of Some n \<Rightarrow> Finite (int n) | None \<Rightarrow> NaN)
          else (case parse_nat s of Some n \<Rightarrow> Finite (int n) | None \<Rightarrow> NaN))"

section \<open>The data model\<close>

text \<open>\<^verbatim>\<open>ctx\<close> as the object literal of \<^verbatim>\<open>createGameReducer\<close> builds it; \<^verbatim>\<open>winner\<close> is a
  player identifier or \<^verbatim>\<open>null\<close>.\<close>

record ctx =
  turn :: int
  currentPlayer :: string
  numPlayers :: int
  winner :: "string option"

text \<open>
  The state object \<^verbatim>\<open>{G, ctx, log, _id, _initial}\<close> and the actions it logs. An action
  is an object with a \<^verbatim>\<open>type\<close>, and optionally a \<^verbatim>\<open>move\<close> (\<^verbatim>\<open>Undefined\<close> when absent) and
  a \<^verbatim>\<open>state\<close> (\<^verbatim>\<open>None\<close> when absent). The fields \<^verbatim>\<open>_id\<close> and \<^verbatim>\<open>_initial\<close> are named
  \<open>id'\<close> and \<open>initial'\<close>.
\<close>

datatype state =
  State (G: jsval) (ctx: ctx) (log: "action list") (id': int) (initial': jsval)
and action =
  Action (atype: jsval) (move: jsval) (rstate: "state option")

text \<open>
  The game definition handed to \<^verbatim>\<open>createGameReducer\<close>. Its functions are taken to be
  pure and total. \<^verbatim>\<open>flow\<close> is optional; \<^verbatim>\<open>setup\<close> is named \<open>setup'\<close>.
\<close>

record game =
  setup' :: "int \<Rightarrow> jsval"
  names :: "string list"
  reducer :: "jsval \<Rightarrow> jsval \<Rightarrow> ctx \<Rightarrow> jsval"
  victory :: "jsval \<Rightarrow> ctx \<Rightarrow> string option"
  flow :: "(ctx \<Rightarrow> action \<Rightarrow> jsval \<Rightarrow> ctx) option"

text \<open>Modelled from the spec: the action type constants of \<^verbatim>\<open>./action-types\<close>, which
  the source imports as \<^verbatim>\<open>Actions.MAKE_MOVE\<close>, \<^verbatim>\<open>Actions.END_TURN\<close> and
  \<^verbatim>\<open>Actions.RESTORE\<close>; the spec names the three kinds and nothing but their being
  distinct strings matters.\<close>

definition MAKE_MOVE :: string where
  "MAKE_MOVE = ''MAKE_MOVE''"

definition END_TURN :: string where
  "END_TURN = ''END_TURN''"

definition RESTORE :: string where
  "RESTORE = ''RESTORE''"

section \<open>The objects as JavaScript values, and the JSON round trip\<close>

definition ctx_to_js :: "ctx \<Rightarrow> jsval" where
  "ctx_to_js c =
     Obj [(''turn'', Num (Finite (turn c))),
          (''currentPlayer'', Str (currentPlayer c)),
          (''numPlayers'', Num (Finite (numPlayers c))),
          (''winner'', case winner c of None \<Rightarrow> Null | Some w \<Rightarrow> Str w)]"

text \<open>An optional field of an action that is absent is no property of the object.\<close>

primrec state_to_js :: "state \<Rightarrow> jsval" and action_to_js :: "action \<Rightarrow> jsval" where
  "state_to_js (State g c l i ini) =
     Obj [(''G'', g), (''ctx'', ctx_to_js c), (''log'', Arr (map action_to_js l)),
          (''_id'', Num (Finite i)), (''_initial'', ini)]"
| "action_to_js (Action t m rs) =
     Obj (filter (\<lambda>(k, v). v \<noteq> Undefined)
       [(''type'', t), (''move'', m),
        (''state'', case map_option state_to_js rs of None \<Rightarrow> Undefined | Some v \<Rightarrow> v)])"

text \<open>
  \<^verbatim>\<open>JSON.parse(JSON.stringify(v))\<close> for a value \<open>v\<close> that is not \<^verbatim>\<open>undefined\<close>: a
  property whose value is \<^verbatim>\<open>undefined\<close> is left out, an \<^verbatim>\<open>undefined\<close> array element
  and \<^verbatim>\<open>NaN\<close> become \<^verbatim>\<open>null\<close>.
\<close>

fun json_value :: "jsval \<Rightarrow> jsval" where
  "json_value (Num NaN) = Null"
| "json_value (Arr xs) = Arr (map (\<lambda>x. if x = Undefined then Null else json_value x) xs)"
| "json_value (Obj ps) =
     Obj (map (\<lambda>(k, v). (k, json_value v)) (filter (\<lambda>(k, v). v \<noteq> Undefined) ps))"
| "json_value v = v"

text \<open>\<^verbatim>\<open>const deepCopy = obj => JSON.parse(JSON.stringify(obj))\<close>. \<^verbatim>\<open>JSON.stringify\<close>
  of \<^verbatim>\<open>undefined\<close> is \<^verbatim>\<open>undefined\<close>, on which \<^verbatim>\<open>JSON.parse\<close> throws: \<open>None\<close>.\<close>

definition deepCopy :: "jsval \<Rightarrow> jsval option" where
  "deepCopy obj = (if obj = Undefined then None else Some (json_value obj))"


text \<open>Property lookup on an object.\<close>

fun property :: "jsval \<Rightarrow> string \<Rightarrow> jsval" where
  "property (Obj ps) k = (case map_of ps k of None \<Rightarrow> Undefined | Some v \<Rightarrow> v)"
| "property v k = Undefined"

section \<open>createGameReducer\<close>

text \<open>Lines 20 to 27: the game used when none is given.\<close>

definition default_game :: game where
  "default_game =
     \<lparr>setup' = (\<lambda>n. Obj []), names = [], reducer = (\<lambda>g m c. g),
      victory = (\<lambda>g c. None), flow = None\<rparr>"

definition game_or_default :: "game option \<Rightarrow> game" where
  "game_or_default game_arg = (case game_arg of None \<Rightarrow> default_game | Some g \<Rightarrow> g)"

text \<open>Lines 29 to 31: \<^verbatim>\<open>if (!numPlayers) numPlayers = 2\<close>; an absent argument and 0 are
  falsy.\<close>

definition numPlayers_or_default :: "int option \<Rightarrow> int" where
  "numPlayers_or_default numPlayers_arg =
     (case numPlayers_arg of None \<Rightarrow> 2 | Some n \<Rightarrow> if n = 0 then 2 else n)"

text \<open>Lines 33 to 57: the object literal \<^verbatim>\<open>initial\<close>, whose \<^verbatim>\<open>_initial\<close> is \<^verbatim>\<open>{}\<close>.\<close>

definition initial_literal :: "game \<Rightarrow> int \<Rightarrow> state" where
  "initial_literal game n =
     State (setup' game n)
       \<lparr>turn = 0, currentPlayer = ''0'', numPlayers = n, winner = None\<rparr>
       [] 0 (Obj [])"

text \<open>Lines 20 to 60: the state \<^verbatim>\<open>initial\<close> after
  \<^verbatim>\<open>initial._initial = deepCopy(initial)\<close>; \<open>None\<close> when \<^verbatim>\<open>deepCopy\<close> throws.\<close>

definition initialize :: "game option \<Rightarrow> int option \<Rightarrow> state option" where
  "initialize game_arg numPlayers_arg =
     (let game = game_or_default game_arg;
          n = numPlayers_or_default numPlayers_arg;
          initial = initial_literal game n
      in case deepCopy (state_to_js initial) of
           None \<Rightarrow> None
         | Some snapshot \<Rightarrow>
             Some (State (G initial) (ctx initial) (log initial) (id' initial) snapshot))"

text \<open>Lines 73 to 90: the default turn flow. Its default parameter \<^verbatim>\<open>ctx = {}\<close> stands
  in for an \<^verbatim>\<open>undefined\<close> argument only; a typed state always has a \<^verbatim>\<open>ctx\<close>.\<close>

definition GameFlow :: "game \<Rightarrow> ctx \<Rightarrow> action \<Rightarrow> jsval \<Rightarrow> ctx" where
  "GameFlow game c action g =
     (if atype action = Str END_TURN then
        (let winner' = victory game g c;
             currentPlayer' =
               to_string (js_rem (js_add (to_number (currentPlayer c)) (Finite 1))
                                 (Finite (numPlayers c)));
             turn' = turn c + 1
         in c\<lparr>currentPlayer := currentPlayer', turn := turn', winner := winner'\<rparr>)
      else c)"

text \<open>Lines 92 to 94: \<^verbatim>\<open>if (!game.flow) game.flow = GameFlow\<close>; the function that
  \<^verbatim>\<open>game.flow\<close> is from then on.\<close>

definition game_flow :: "game \<Rightarrow> ctx \<Rightarrow> action \<Rightarrow> jsval \<Rightarrow> ctx" where
  "game_flow game = (case flow game of None \<Rightarrow> GameFlow game | Some f \<Rightarrow> f)"

text \<open>
  Lines 103 to 124: the reducer that \<^verbatim>\<open>createGameReducer\<close> returns. Its first argument
  is \<open>None\<close> for \<^verbatim>\<open>undefined\<close>, which the default parameter replaces by \<^verbatim>\<open>initial\<close>; its
  result is \<open>None\<close> when a \<^verbatim>\<open>RESTORE\<close> action has no \<^verbatim>\<open>state\<close>.
\<close>

definition GameReducer :: "game \<Rightarrow> state \<Rightarrow> state option \<Rightarrow> action \<Rightarrow> state option" where
  "GameReducer game initial state_arg action =
     (let state = (case state_arg of None \<Rightarrow> initial | Some s \<Rightarrow> s) in
      if atype action = Str MAKE_MOVE then
        (let G' = reducer game (G state) (move action) (ctx state);
             log' = log state @ [action]
         in Some (State G' (ctx state) log' (id' state + 1) (initial' state)))
      else if atype action = Str END_TURN then
        (let ctx' = game_flow game (ctx state) action (G state);
             log' = log state @ [action]
         in Some (State (G state) ctx' log' (id' state + 1) (initial' state)))
      else if atype action = Str RESTORE then rstate action
      else Some state)"

definition createGameReducer ::
  "game option \<Rightarrow> int option \<Rightarrow> (state option \<Rightarrow> action \<Rightarrow> state option) option" where
  "createGameReducer game_arg numPlayers_arg =
     (case initialize game_arg numPlayers_arg of
        None \<Rightarrow> None
      | Some initial \<Rightarrow> Some (GameReducer (game_or_default game_arg) initial))"

text \<open>Feeding a list of actions through a reducer, one at a time.\<close>

definition run ::
  "(state option \<Rightarrow> action \<Rightarrow> state option) \<Rightarrow> state option \<Rightarrow> action list \<Rightarrow> state option" where
  "run r st as = foldl r st as"

text \<open>The host's use of the module: \<^verbatim>\<open>createGameReducer\<close> once, then the actions through
  the reducer it returned, starting from the \<^verbatim>\<open>undefined\<close> state.\<close>

definition play :: "game option \<Rightarrow> int option \<Rightarrow> action list \<Rightarrow> state option" where
  "play game_arg numPlayers_arg as =
     (case createGameReducer game_arg numPlayers_arg of
        None \<Rightarrow> None
      | Some r \<Rightarrow> run r None as)"

text \<open>Along the transitions of a list of actions from a state \<open>s\<close>: every state
  produced has a non-null \<^verbatim>\<open>ctx.winner\<close>; and \<open>victory(G, ctx)\<close> is non-null at every
  END_TURN, on the state the END_TURN is applied to.\<close>

fun winner_kept :: "game \<Rightarrow> state \<Rightarrow> state \<Rightarrow> action list \<Rightarrow> bool" where
  "winner_kept game initial s [] = True"
| "winner_kept game initial s (a # as) =
     (case GameReducer game initial (Some s) a of
        None \<Rightarrow> False
      | Some s' \<Rightarrow> winner (ctx s') \<noteq> None \<and> winner_kept game initial s' as)"

fun victory_reported :: "game \<Rightarrow> state \<Rightarrow> state \<Rightarrow> action list \<Rightarrow> bool" where
  "victory_reported game initial s [] = True"
| "victory_reported game initial s (a # as) =
     ((atype a = Str END_TURN \<longrightarrow> victory game (G s) (ctx s) \<noteq> None)
      \<and> (case GameReducer game initial (Some s) a of
            None \<Rightarrow> True
          | Some s' \<Rightarrow> victory_reported game initial s' as))"

text \<open>A string that is the numeral of an index in \<open>[0, n)\<close>.\<close>

definition valid_index :: "int \<Rightarrow> string \<Rightarrow> bool" where
  "valid_index n s = (\<exists>i\<in>{0..<n}. s = to_string (Finite i))"

section \<open>Actions and games used as examples\<close>

text \<open>The actions that the action creators build: \<^verbatim>\<open>{type: MAKE_MOVE, move}\<close>,
  \<^verbatim>\<open>{type: END_TURN}\<close>, \<^verbatim>\<open>{type: RESTORE, state}\<close>, and one of an unknown type.\<close>

definition makeMove :: "jsval \<Rightarrow> action" where
  "makeMove m = Action (Str MAKE_MOVE) m None"

definition endTurn :: action where
  "endTurn = Action (Str END_TURN) Undefined None"

definition restore :: "state \<Rightarrow> action" where
  "restore s = Action (Str RESTORE) Undefined (Some s)"

definition nope :: action where
  "nope = Action (Str ''NOPE'') Undefined None"

definition sample_state :: state where
  "sample_state =
     State (Num (Finite 7))
       \<lparr>turn = 4, currentPlayer = ''1'', numPlayers = 3, winner = None\<rparr>
       [endTurn] 5 (Obj [])"

text \<open>A move \<^verbatim>\<open>{type: 'clickCell', args: [3]}\<close>, and a game whose reducer stores in
  \<^verbatim>\<open>G\<close> the \<^verbatim>\<open>type\<close> of the object it is handed:
  \<^verbatim>\<open>reducer: (G, x, ctx) => x.type\<close>.\<close>

definition clickCell :: jsval where
  "clickCell = Obj [(''type'', Str ''clickCell''), (''args'', Arr [Num (Finite 3)])]"

definition type_game :: game where
  "type_game =
     \<lparr>setup' = (\<lambda>n. Null), names = [''clickCell''],
      reducer = (\<lambda>g x c. property x ''type''),
      victory = (\<lambda>g c. None), flow = None\<rparr>"

text \<open>A game whose \<^verbatim>\<open>G\<close> is a score: a move adds its number to the score, and player
  \<^verbatim>\<open>"0"\<close> wins while the score is at least 10.\<close>

fun add_score :: "jsval \<Rightarrow> jsval \<Rightarrow> ctx \<Rightarrow> jsval" where
  "add_score (Num x) (Num y) c = Num (js_add x y)"
| "add_score g m c = g"

fun score_victory :: "jsval \<Rightarrow> ctx \<Rightarrow> string option" where
  "score_victory (Num (Finite x)) c = (if 10 \<le> x then Some ''0'' else None)"
| "score_victory g c = None"

definition score_game :: game where
  "score_game =
     \<lparr>setup' = (\<lambda>n. Num (Finite 0)), names = [''add''], reducer = add_score,
      victory = score_victory, flow = None\<rparr>"

text \<open>A state of the score game in which player \<^verbatim>\<open>"0"\<close> has won.\<close>

definition won_state :: state where
  "won_state =
     State (Num (Finite 10))
       \<lparr>turn = 1, currentPlayer = ''1'', numPlayers = 2, winner = Some ''0''\<rparr>
       [makeMove (Num (Finite 10)), endTurn] 2 (Obj [])"

section \<open>Objects with identity: the store\<close>

text \<open>
  The values above carry no identity: nothing can be said of two of them being one and
  the same object. What is said of \<^verbatim>\<open>_initial\<close> sharing no object with the live state is
  about identity, so \<^verbatim>\<open>createGameReducer\<close> is embedded a second time, over a store. A
  store is a list of cells, one for each object, and the address of an object is the
  index of its cell. A stored value is a primitive or a reference \<open>Ref a\<close> to the cell at
  \<open>a\<close>. An array and a plain object hold stored values; the objects the reducer works with
  have a cell of their own shape: \<^verbatim>\<open>ctx\<close> (a record of primitives, as above), an action
  \<^verbatim>\<open>{type, move, state}\<close> (an absent field is \<open>SUndefined\<close>) and a state
  \<^verbatim>\<open>{G, ctx, log, _id, _initial}\<close>.
\<close>

datatype sval = SUndefined | SNull | SBool bool | SNum number | SStr string | Ref nat

datatype cell =
    ArrCell "sval list"
  | ObjCell "(string \<times> sval) list"
  | CtxCell ctx
  | ActionCell sval sval sval
  | StateCell sval sval sval int sval

type_synonym store = "cell list"

text \<open>The stored values that a cell holds.\<close>

fun children :: "cell \<Rightarrow> sval list" where
  "children (ArrCell vs) = vs"
| "children (ObjCell ps) = map snd ps"
| "children (CtxCell c) = []"
| "children (ActionCell t m st) = [t, m, st]"
| "children (StateCell g c l i ini) = [g, c, l, ini]"



subsection \<open>Reachability\<close>

text \<open>
  The addresses that a list of stored values names, the edges of the object graph, and
  the addresses that can be reached from a stored value: the objects that make up the
  structure it stands for. In a well-formed store no cell refers beyond the store.
\<close>

definition refs :: "sval list \<Rightarrow> nat set" where
  "refs vs = {a. Ref a \<in> set vs}"

definition edges :: "store \<Rightarrow> (nat \<times> nat) set" where
  "edges s = {(a, b). a < length s \<and> b \<in> refs (children (s ! a))}"

definition reach :: "store \<Rightarrow> sval \<Rightarrow> nat set" where
  "reach s v = (edges s)\<^sup>* `` refs [v]"


definition valid :: "store \<Rightarrow> sval \<Rightarrow> bool" where
  "valid s v = (\<forall>a \<in> refs [v]. a < length s)"

text \<open>A stored value sees a set \<open>X\<close> of addresses when it reaches one of them. Two
  structures share an object exactly when one sees what the other reaches.\<close>

definition sees :: "store \<Rightarrow> nat set \<Rightarrow> sval \<Rightarrow> bool" where
  "sees s X v \<longleftrightarrow> reach s v \<inter> X \<noteq> {}"

subsection \<open>JSON.stringify and JSON.parse on the store\<close>






subsection \<open>createGameReducer on the store\<close>






text \<open>The state that the object literal of lines 33 to 57 assembles, as a value, when
  the value of \<^verbatim>\<open>G\<close> is \<open>tg\<close>: the value of \<open>initial_literal\<close> above.\<close>

definition assembled :: "jsval \<Rightarrow> int \<Rightarrow> jsval" where
  "assembled tg n =
     state_to_js (State tg \<lparr>turn = 0, currentPlayer = ''0'', numPlayers = n, winner = None\<rparr>
                    [] 0 (Obj []))"





subsection \<open>Who can get at the snapshot\<close>

text \<open>
  \<open>X\<close> is the set of the snapshot's cells. A call that takes the store from \<open>s\<close> to \<open>s'\<close>
  keeps out of \<open>X\<close> when: no object is lost, an object stays what it is (an array stays
  an array), and no reference dangles, as in every run of a JavaScript program; the
  objects that see \<open>X\<close> are as they were; and no other object, old or new, has come to see
  \<open>X\<close>. A function that holds no reference to an object that sees \<open>X\<close> cannot but keep
  out of it.
\<close>

fun same_kind :: "cell \<Rightarrow> cell \<Rightarrow> bool" where
  "same_kind (ArrCell vs) (ArrCell ws) = True"
| "same_kind (ObjCell ps) (ObjCell qs) = True"
| "same_kind (CtxCell c) (CtxCell d) = True"
| "same_kind (ActionCell t m st) (ActionCell t' m' st') = True"
| "same_kind (StateCell g c l i ini) (StateCell g' c' l' i' ini') = True"
| "same_kind c d = False"









subsection \<open>Games on the store used as examples\<close>





section \<open>Decimal numerals\<close>

text \<open>The equation of \<open>digits\<close> is recursive under a condition: it is unfolded by hand.\<close>

declare digits.simps [simp del]

lemma digit_char:
  assumes "n < 10"
  shows "is_digit (''0123456789'' ! n)" and "digit_value (''0123456789'' ! n) = n"
proof -
  from assms have "n \<in> {0, 1, 2, 3, 4, 5, 6, 7, 8, 9}" by auto
  then show "is_digit (''0123456789'' ! n)" and "digit_value (''0123456789'' ! n) = n"
    by (auto simp: is_digit_def digit_value_def)
qed

lemma is_digit_not_sign: "is_digit c \<Longrightarrow> c \<noteq> CHR ''-'' \<and> c \<noteq> CHR ''+''"
  by (auto simp: is_digit_def)

lemma parse_digits_snoc:
  "parse_digits acc (cs @ [c]) =
     (case parse_digits acc cs of
        None \<Rightarrow> None
      | Some v \<Rightarrow> if is_digit c then Some (10 * v + digit_value c) else None)"
  by (induction cs arbitrary: acc) simp_all

lemma parse_digits_digits: "parse_digits 0 (digits n) = Some n"
proof (induction n rule: digits.induct)
  case (1 n)
  show ?case
  proof (cases "n < 10")
    case True
    then show ?thesis by (subst digits.simps) (simp add: digit_char)
  next
    case False
    with 1 have "parse_digits 0 (digits (n div 10)) = Some (n div 10)" by simp
    moreover have "n mod 10 < 10" by simp
    ultimately show ?thesis using False
      by (subst digits.simps) (simp add: parse_digits_snoc digit_char)
  qed
qed

lemma digits_first: "\<exists>c cs. digits n = c # cs \<and> is_digit c"
proof (induction n rule: digits.induct)
  case (1 n)
  show ?case
  proof (cases "n < 10")
    case True
    then show ?thesis by (subst digits.simps) (simp add: digit_char)
  next
    case False
    with 1 obtain c cs where "digits (n div 10) = c # cs" and "is_digit c" by blast
    with False show ?thesis by (subst digits.simps) simp
  qed
qed

lemma parse_nat_digits: "parse_nat (digits n) = Some n"
  using digits_first [of n] by (auto simp: parse_nat_def parse_digits_digits)

lemma to_number_digits: "to_number (digits n) = Finite (int n)"
proof -
  obtain c cs where d: "digits n = c # cs" and c: "is_digit c"
    using digits_first by blast
  from c have "c \<noteq> CHR ''-''" "c \<noteq> CHR ''+''" by (simp_all add: is_digit_not_sign)
  moreover have "parse_nat (c # cs) = Some n" using parse_nat_digits [of n] d by simp
  ultimately show ?thesis by (simp add: to_number_def d)
qed

text \<open>Reading the numeral of an integer gives the integer back.\<close>

lemma to_number_to_string: "to_number (to_string (Finite i)) = Finite i"
proof (cases "i < 0")
  case True
  then show ?thesis by (simp add: to_number_def parse_nat_digits)
next
  case False
  then show ?thesis by (simp add: to_number_digits)
qed

lemma next_index:
  assumes "0 \<le> i" and "i < n"
  shows "js_rem (js_add (Finite i) (Finite 1)) (Finite n) = Finite ((i + 1) mod n)"
  using assms by (simp add: sgn_if)

lemma valid_index_next:
  assumes "0 \<le> i" and "i < n"
  shows "valid_index n (to_string (Finite ((i + 1) mod n)))"
proof -
  from assms have "0 \<le> (i + 1) mod n" and "(i + 1) mod n < n" by simp_all
  then have "(i + 1) mod n \<in> {0..<n}" by simp
  then show ?thesis unfolding valid_index_def by blast
qed

lemma valid_index_2_of_3: "valid_index 3 ''2''"
  unfolding valid_index_def by (rule bexI [of _ 2]) (simp_all add: digits.simps)

section \<open>The JSON round trip\<close>




lemma deepCopy_state: "deepCopy (state_to_js s) = Some (json_value (state_to_js s))"
  by (cases s) (simp add: deepCopy_def)

section \<open>Initialisation\<close>

text \<open>\<^verbatim>\<open>deepCopy\<close> never throws on the object literal, so there is always an initial
  state.\<close>

lemma initialize_Some:
  "initialize game_arg numPlayers_arg =
     Some (State (setup' (game_or_default game_arg) (numPlayers_or_default numPlayers_arg))
            \<lparr>turn = 0, currentPlayer = ''0'',
               numPlayers = numPlayers_or_default numPlayers_arg, winner = None\<rparr>
            [] 0
            (json_value (state_to_js (initial_literal (game_or_default game_arg)
               (numPlayers_or_default numPlayers_arg)))))"
  by (simp add: initialize_def Let_def deepCopy_state) (simp add: initial_literal_def)

lemma snapshot_placeholder:
  "property (json_value (state_to_js (initial_literal game n))) ''_initial'' = Obj []"
  by (simp add: initial_literal_def ctx_to_js_def)

section \<open>The transitions of the reducer\<close>

lemma action_types_distinct:
  "MAKE_MOVE \<noteq> END_TURN" "MAKE_MOVE \<noteq> RESTORE" "END_TURN \<noteq> RESTORE"
  "END_TURN \<noteq> MAKE_MOVE" "RESTORE \<noteq> MAKE_MOVE" "RESTORE \<noteq> END_TURN"
  by (simp_all add: MAKE_MOVE_def END_TURN_def RESTORE_def)

lemma GameReducer_MAKE_MOVE:
  "atype a = Str MAKE_MOVE \<Longrightarrow>
   GameReducer game initial (Some s) a =
     Some (State (reducer game (G s) (move a) (ctx s)) (ctx s) (log s @ [a]) (id' s + 1)
            (initial' s))"
  by (simp add: GameReducer_def)

lemma GameReducer_END_TURN:
  "atype a = Str END_TURN \<Longrightarrow>
   GameReducer game initial (Some s) a =
     Some (State (G s) (game_flow game (ctx s) a (G s)) (log s @ [a]) (id' s + 1)
            (initial' s))"
  by (simp add: GameReducer_def action_types_distinct)

text \<open>The default parameter: the \<^verbatim>\<open>undefined\<close> state is treated as \<^verbatim>\<open>initial\<close>.\<close>

lemma GameReducer_undefined:
  "GameReducer game initial None a = GameReducer game initial (Some initial) a"
  by (simp add: GameReducer_def)

lemma GameFlow_END_TURN:
  "atype a = Str END_TURN \<Longrightarrow>
   GameFlow game c a g =
     c\<lparr>currentPlayer :=
         to_string (js_rem (js_add (to_number (currentPlayer c)) (Finite 1))
                           (Finite (numPlayers c))),
       turn := turn c + 1, winner := victory game g c\<rparr>"
  by (simp add: GameFlow_def)

lemma winner_kept_iff:
  assumes "flow game = None"
  shows "winner (ctx s) \<noteq> None \<Longrightarrow>
         \<forall>b\<in>set as. atype b = Str MAKE_MOVE \<or> atype b = Str END_TURN \<Longrightarrow>
         winner_kept game initial s as \<longleftrightarrow> victory_reported game initial s as"
proof (induction as arbitrary: s)
  case Nil
  then show ?case by simp
next
  case (Cons a as)
  from Cons.prems have rest: "\<forall>b\<in>set as. atype b = Str MAKE_MOVE \<or> atype b = Str END_TURN"
    and "atype a = Str MAKE_MOVE \<or> atype a = Str END_TURN" by simp_all
  then show ?case
  proof (elim disjE)
    assume m: "atype a = Str MAKE_MOVE"
    let ?t = "State (reducer game (G s) (move a) (ctx s)) (ctx s) (log s @ [a]) (id' s + 1)
                (initial' s)"
    have "winner (ctx ?t) \<noteq> None" using Cons.prems(1) by simp
    from Cons.IH [OF this rest] m Cons.prems(1) show ?thesis
      by (simp add: GameReducer_MAKE_MOVE action_types_distinct)
  next
    assume e: "atype a = Str END_TURN"
    let ?t = "State (G s) (game_flow game (ctx s) a (G s)) (log s @ [a]) (id' s + 1)
                (initial' s)"
    have w: "winner (ctx ?t) = victory game (G s) (ctx s)"
      using e assms by (simp add: game_flow_def GameFlow_END_TURN)
    show ?thesis
    proof (cases "victory game (G s) (ctx s) = None")
      case True
      with w e show ?thesis by (simp add: GameReducer_END_TURN)
    next
      case False
      with w have "winner (ctx ?t) \<noteq> None" by simp
      from Cons.IH [OF this rest] w False e show ?thesis
        by (simp add: GameReducer_END_TURN)
    qed
  qed
qed

section \<open>The object graph\<close>

lemma refs_simps [simp]:
  "refs [] = {}" "refs (Ref a # vs) = insert a (refs vs)"
  "refs (SUndefined # vs) = refs vs" "refs (SNull # vs) = refs vs"
  "refs (SBool b # vs) = refs vs" "refs (SNum n # vs) = refs vs" "refs (SStr x # vs) = refs vs"
  "refs (vs @ ws) = refs vs \<union> refs ws"
  by (auto simp: refs_def)








lemma reach_prim [simp]:
  "reach s SUndefined = {}" "reach s SNull = {}" "reach s (SBool b) = {}"
  "reach s (SNum n) = {}" "reach s (SStr x) = {}"
  by (auto simp: reach_def)











section \<open>Reading and copying a structure\<close>


























section \<open>Initialisation on the store\<close>

text \<open>
  When \<open>setup\<close> leaves a well-formed store \<open>s1\<close> and its \<^verbatim>\<open>G\<close> has a value,
  \<^verbatim>\<open>createGameReducer\<close> returns the state at the address \<open>length s1 + 3\<close>, after \<^verbatim>\<open>ctx\<close>,
  the log and the placeholder; the cells of the snapshot come after it.
\<close>

lemma assembled_initial_literal:
  "assembled (setup' game n) n = state_to_js (initial_literal game n)"
  by (simp add: assembled_def initial_literal_def)




section \<open>Keeping out of the snapshot\<close>

lemma sees_prim [simp]:
  "\<not> sees s X SUndefined" "\<not> sees s X SNull" "\<not> sees s X (SBool b)"
  "\<not> sees s X (SNum n)" "\<not> sees s X (SStr x)"
  by (simp_all add: sees_def)










lemma same_kind_refl [simp]: "same_kind c c"
  by (cases c) auto






















text \<open>Facts for stores that are written out.\<close>

lemma valid_simps [simp]:
  "valid s (Ref a) \<longleftrightarrow> a < length s" "valid s SUndefined" "valid s SNull" "valid s (SBool b)"
  "valid s (SNum n)" "valid s (SStr x)"
  by (simp_all add: valid_def)






section \<open>The claims\<close>

text \<open>
  C1. The claim has the reducer of the game definition receive the whole action:
  \<open>G' = reducer(state.G, a, state.ctx)\<close>. The source hands it \<^verbatim>\<open>action.move\<close>. As
  amended: for every state \<open>s\<close> and every MAKE_MOVE action \<open>a\<close>, the next \<^verbatim>\<open>G\<close> is
  \<open>reducer(s.G, a.move, s.ctx)\<close>, the reducer being called with the current \<^verbatim>\<open>G\<close>, the
  \<^verbatim>\<open>move\<close> that the action carries and the current \<^verbatim>\<open>ctx\<close>.
\<close>

theorem MAKE_MOVE_calls_reducer_with_move:
  assumes "atype a = Str MAKE_MOVE"
  shows "\<exists>s'. GameReducer game initial (Some s) a = Some s'
           \<and> G s' = reducer game (G s) (move a) (ctx s)"
  using assms by (simp add: GameReducer_MAKE_MOVE)

theorem MAKE_MOVE_calls_reducer_with_move_witness:
  "atype (makeMove (Num (Finite 4))) = Str MAKE_MOVE
   \<and> (\<exists>s'. GameReducer score_game sample_state (Some sample_state) (makeMove (Num (Finite 4)))
              = Some s'
        \<and> G s' = Num (Finite 11))"
proof -
  have t: "atype (makeMove (Num (Finite 4))) = Str MAKE_MOVE"
    by (simp add: makeMove_def)
  from MAKE_MOVE_calls_reducer_with_move [OF t, of score_game sample_state sample_state]
  show ?thesis using t by (simp add: sample_state_def score_game_def makeMove_def)
qed

text \<open>With a reducer that returns the \<^verbatim>\<open>type\<close> of what it is handed, the move
  \<^verbatim>\<open>{type: 'clickCell', args: [3]}\<close> leaves \<^verbatim>\<open>'clickCell'\<close> in \<^verbatim>\<open>G\<close>; called with the
  whole action the reducer would have returned the type of the action.\<close>

theorem MAKE_MOVE_whole_action_counterexample:
  "map_option G (GameReducer type_game sample_state (Some sample_state) (makeMove clickCell))
     = Some (Str ''clickCell'')
   \<and> reducer type_game (G sample_state) (action_to_js (makeMove clickCell)) (ctx sample_state)
     = Str ''MAKE_MOVE''"
  by (simp add: GameReducer_def type_game_def makeMove_def clickCell_def sample_state_def
      MAKE_MOVE_def)

text \<open>
  C2. The claim has \<^verbatim>\<open>ctx.winner\<close> never return to \<^verbatim>\<open>null\<close>, for any victory function.
  As amended: for every game definition and state a MAKE_MOVE leaves \<^verbatim>\<open>ctx.winner\<close> as it
  is, and under the default turn flow an END_TURN sets \<^verbatim>\<open>ctx.winner\<close> to \<open>victory(G, ctx)\<close>
  of the state it is applied to; so, from every state whose \<^verbatim>\<open>ctx.winner\<close> is non-null
  and for every sequence of MAKE_MOVE and END_TURN transitions, no transition of the
  sequence produces a state whose \<^verbatim>\<open>ctx.winner\<close> is \<^verbatim>\<open>null\<close> if and only if
  \<open>victory(G, ctx)\<close> is non-null at every END_TURN of the sequence.
\<close>

theorem winner_follows_victory:
  "(atype a = Str MAKE_MOVE \<longrightarrow>
      (\<exists>s'. GameReducer game initial (Some s) a = Some s' \<and> winner (ctx s') = winner (ctx s)))
   \<and> (flow game = None \<and> atype a = Str END_TURN \<longrightarrow>
      (\<exists>s'. GameReducer game initial (Some s) a = Some s'
         \<and> winner (ctx s') = victory game (G s) (ctx s)))
   \<and> (flow game = None \<and> winner (ctx s) \<noteq> None
        \<and> (\<forall>b\<in>set as. atype b = Str MAKE_MOVE \<or> atype b = Str END_TURN) \<longrightarrow>
      (winner_kept game initial s as \<longleftrightarrow> victory_reported game initial s as))"
  by (simp add: GameReducer_MAKE_MOVE GameReducer_END_TURN game_flow_def GameFlow_END_TURN
      winner_kept_iff)

theorem winner_follows_victory_witness:
  "winner (ctx won_state) \<noteq> None
   \<and> victory_reported score_game won_state won_state [makeMove (Num (Finite 1)), endTurn]
   \<and> winner_kept score_game won_state won_state [makeMove (Num (Finite 1)), endTurn]
   \<and> \<not> victory_reported score_game won_state won_state [makeMove (Num (Finite (- 5))), endTurn]
   \<and> \<not> winner_kept score_game won_state won_state [makeMove (Num (Finite (- 5))), endTurn]"
proof -
  have f: "flow score_game = None" by (simp add: score_game_def)
  have w: "winner (ctx won_state) \<noteq> None" by (simp add: won_state_def)
  have a: "\<forall>b\<in>set [makeMove m, endTurn]. atype b = Str MAKE_MOVE \<or> atype b = Str END_TURN" for m
    by (simp add: makeMove_def endTurn_def)
  have up: "victory_reported score_game won_state won_state [makeMove (Num (Finite 1)), endTurn]"
    by (simp add: GameReducer_def score_game_def won_state_def makeMove_def endTurn_def
        action_types_distinct game_flow_def GameFlow_def)
  have down: "\<not> victory_reported score_game won_state won_state
                 [makeMove (Num (Finite (- 5))), endTurn]"
    by (simp add: GameReducer_def score_game_def won_state_def makeMove_def endTurn_def
        action_types_distinct game_flow_def GameFlow_def)
  from winner_follows_victory [of "endTurn" score_game won_state won_state
      "[makeMove (Num (Finite 1)), endTurn]"] f w a
  have "winner_kept score_game won_state won_state [makeMove (Num (Finite 1)), endTurn]
        \<longleftrightarrow> victory_reported score_game won_state won_state [makeMove (Num (Finite 1)), endTurn]"
    by blast
  moreover
  from winner_follows_victory [of "endTurn" score_game won_state won_state
      "[makeMove (Num (Finite (- 5))), endTurn]"] f w a
  have "winner_kept score_game won_state won_state [makeMove (Num (Finite (- 5))), endTurn]
        \<longleftrightarrow> victory_reported score_game won_state won_state
              [makeMove (Num (Finite (- 5))), endTurn]"
    by blast
  ultimately show ?thesis using w up down by blast
qed

text \<open>In the score game for two players a move of 10 and an END_TURN make \<^verbatim>\<open>"0"\<close> the
  winner; a further move of -5 and an END_TURN make the winner \<^verbatim>\<open>null\<close> again.\<close>

theorem winner_reset_counterexample:
  "map_option (winner \<circ> ctx) (play (Some score_game) (Some 2)
      [makeMove (Num (Finite 10)), endTurn]) = Some (Some ''0'')
   \<and> map_option (winner \<circ> ctx) (play (Some score_game) (Some 2)
      [makeMove (Num (Finite 10)), endTurn, makeMove (Num (Finite (- 5))), endTurn]) = Some None"
  by (simp add: play_def createGameReducer_def initialize_Some run_def GameReducer_def
      game_or_default_def numPlayers_or_default_def score_game_def makeMove_def endTurn_def
      action_types_distinct game_flow_def GameFlow_def)

text \<open>
  C3. For every state \<open>s\<close> and every MAKE_MOVE action \<open>a\<close>, the reducer returns a state
  whose \<^verbatim>\<open>_id\<close> is \<open>s._id + 1\<close>, whose \<^verbatim>\<open>log\<close> is the log of \<open>s\<close> with \<open>a\<close> appended as its
  last element, and whose \<^verbatim>\<open>ctx\<close> is the \<^verbatim>\<open>ctx\<close> of \<open>s\<close>.
\<close>

theorem MAKE_MOVE_id_log_ctx:
  assumes "atype a = Str MAKE_MOVE"
  shows "\<exists>s'. GameReducer game initial (Some s) a = Some s'
           \<and> id' s' = id' s + 1 \<and> log s' = log s @ [a] \<and> ctx s' = ctx s"
  using assms by (simp add: GameReducer_MAKE_MOVE)

theorem MAKE_MOVE_id_log_ctx_witness:
  "atype (makeMove (Num (Finite 3))) = Str MAKE_MOVE
   \<and> (\<exists>s'. GameReducer default_game sample_state (Some sample_state) (makeMove (Num (Finite 3)))
              = Some s'
        \<and> id' s' = 6 \<and> log s' = [endTurn, makeMove (Num (Finite 3))]
        \<and> ctx s' = \<lparr>turn = 4, currentPlayer = ''1'', numPlayers = 3, winner = None\<rparr>)"
proof -
  have t: "atype (makeMove (Num (Finite 3))) = Str MAKE_MOVE"
    by (simp add: makeMove_def)
  from MAKE_MOVE_id_log_ctx [OF t, of default_game sample_state sample_state]
  show ?thesis using t by (simp add: sample_state_def)
qed

text \<open>
  C4. The claim lets every field of \<^verbatim>\<open>ctx\<close> other than \<^verbatim>\<open>currentPlayer\<close> and \<^verbatim>\<open>turn\<close> pass
  through an END_TURN unchanged; the default turn flow also sets \<^verbatim>\<open>winner\<close>. As amended:
  on every END_TURN the default turn flow returns \<^verbatim>\<open>ctx\<close> with \<^verbatim>\<open>currentPlayer\<close> set to the
  string form of \<open>(numeric value of the old currentPlayer + 1) % numPlayers\<close>, \<^verbatim>\<open>turn\<close> set
  to the old turn + 1 and \<^verbatim>\<open>winner\<close> set to \<open>victory(G, ctx)\<close>, every other field
  (\<^verbatim>\<open>numPlayers\<close>) passing through unchanged; when the old \<^verbatim>\<open>currentPlayer\<close> is the numeral
  of an index \<open>i\<close> in \<open>[0, numPlayers)\<close>, the new one is the numeral of
  \<open>(i + 1) mod numPlayers\<close>, again a valid index string.
\<close>

theorem GameFlow_on_END_TURN:
  assumes "atype a = Str END_TURN"
  shows "GameFlow game c a g =
           c\<lparr>currentPlayer :=
               to_string (js_rem (js_add (to_number (currentPlayer c)) (Finite 1))
                                 (Finite (numPlayers c))),
             turn := turn c + 1, winner := victory game g c\<rparr>
         \<and> turn (GameFlow game c a g) = turn c + 1
         \<and> numPlayers (GameFlow game c a g) = numPlayers c
         \<and> winner (GameFlow game c a g) = victory game g c
         \<and> (\<forall>i. 0 \<le> i \<and> i < numPlayers c \<and> currentPlayer c = to_string (Finite i) \<longrightarrow>
               currentPlayer (GameFlow game c a g) = to_string (Finite ((i + 1) mod numPlayers c)))
         \<and> (valid_index (numPlayers c) (currentPlayer c) \<longrightarrow>
               valid_index (numPlayers c) (currentPlayer (GameFlow game c a g)))"
proof -
  note step = GameFlow_END_TURN [OF assms, of game c g]
  have idx: "currentPlayer (GameFlow game c a g) = to_string (Finite ((i + 1) mod numPlayers c))"
    if "0 \<le> i" "i < numPlayers c" "currentPlayer c = to_string (Finite i)" for i
    using that by (simp only: step to_number_to_string next_index) simp
  have "valid_index (numPlayers c) (currentPlayer (GameFlow game c a g))"
    if "valid_index (numPlayers c) (currentPlayer c)"
  proof -
    from that obtain i where "0 \<le> i" "i < numPlayers c" "currentPlayer c = to_string (Finite i)"
      unfolding valid_index_def by auto
    then show ?thesis using idx [of i] valid_index_next [of i "numPlayers c"] by simp
  qed
  with idx show ?thesis by (simp add: step)
qed

theorem GameFlow_on_END_TURN_witness:
  "atype endTurn = Str END_TURN
   \<and> GameFlow score_game \<lparr>turn = 4, currentPlayer = ''2'', numPlayers = 3, winner = None\<rparr>
        endTurn (Num (Finite 10))
       = \<lparr>turn = 5, currentPlayer = ''0'', numPlayers = 3, winner = Some ''0''\<rparr>
   \<and> valid_index 3 ''2''
   \<and> valid_index 3 (currentPlayer (GameFlow score_game
         \<lparr>turn = 4, currentPlayer = ''2'', numPlayers = 3, winner = None\<rparr>
         endTurn (Num (Finite 10))))"
proof -
  let ?c = "\<lparr>turn = 4, currentPlayer = ''2'', numPlayers = 3, winner = None\<rparr>"
  let ?c' = "GameFlow score_game ?c endTurn (Num (Finite 10))"
  have t: "atype endTurn = Str END_TURN" by (simp add: endTurn_def)
  have v: "valid_index (numPlayers ?c) (currentPlayer ?c)" using valid_index_2_of_3 by simp
  have e: "?c' = \<lparr>turn = 5, currentPlayer = ''0'', numPlayers = 3, winner = Some ''0''\<rparr>"
    by (simp add: GameFlow_def score_game_def endTurn_def to_number_def parse_nat_def
        is_digit_def digit_value_def digits.simps)
  from GameFlow_on_END_TURN [OF t, of score_game ?c "Num (Finite 10)"]
  have "valid_index (numPlayers ?c) (currentPlayer ?c) \<longrightarrow>
        valid_index (numPlayers ?c) (currentPlayer ?c')"
    by (elim conjE)
  with v have "valid_index (numPlayers ?c) (currentPlayer ?c')" by (rule rev_mp)
  then have "valid_index 3 (currentPlayer ?c')" by simp
  with t e valid_index_2_of_3 show ?thesis by (simp only: simp_thms)
qed

text \<open>With the score at 10 an END_TURN changes \<^verbatim>\<open>winner\<close> from \<^verbatim>\<open>null\<close> to \<^verbatim>\<open>"0"\<close>.\<close>

theorem END_TURN_changes_winner_counterexample:
  "winner \<lparr>turn = 0, currentPlayer = ''0'', numPlayers = 2, winner = None\<rparr> = None
   \<and> winner (GameFlow score_game
               \<lparr>turn = 0, currentPlayer = ''0'', numPlayers = 2, winner = None\<rparr>
               endTurn (Num (Finite 10))) = Some ''0''"
  by (simp add: GameFlow_def score_game_def endTurn_def)

text \<open>
  C5. For every state \<open>s\<close> and every END_TURN action \<open>a\<close>, the reducer returns a state
  whose \<^verbatim>\<open>ctx\<close> is \<open>game.flow(s.ctx, a, s.G)\<close>, whose \<^verbatim>\<open>log\<close> is the log of \<open>s\<close> with \<open>a\<close>
  appended, whose \<^verbatim>\<open>_id\<close> is \<open>s._id + 1\<close> and whose \<^verbatim>\<open>G\<close> is the \<^verbatim>\<open>G\<close> of \<open>s\<close>.
  \<open>game.flow\<close> is the flow of the game definition, and \<open>GameFlow\<close> when it has none.
\<close>

theorem END_TURN_delegates_to_flow:
  assumes "atype a = Str END_TURN"
  shows "\<exists>s'. GameReducer game initial (Some s) a = Some s'
           \<and> ctx s' = game_flow game (ctx s) a (G s)
           \<and> log s' = log s @ [a] \<and> id' s' = id' s + 1 \<and> G s' = G s
           \<and> game_flow game = (case flow game of None \<Rightarrow> GameFlow game | Some f \<Rightarrow> f)"
  using assms by (simp add: GameReducer_END_TURN game_flow_def)

theorem END_TURN_delegates_to_flow_witness:
  "atype endTurn = Str END_TURN
   \<and> (\<exists>s'. GameReducer score_game sample_state (Some sample_state) endTurn = Some s'
        \<and> ctx s' = \<lparr>turn = 5, currentPlayer = ''2'', numPlayers = 3, winner = None\<rparr>
        \<and> log s' = [endTurn, endTurn] \<and> id' s' = 6 \<and> G s' = Num (Finite 7))"
proof -
  have t: "atype endTurn = Str END_TURN"
    by (simp add: endTurn_def)
  have f: "game_flow score_game (ctx sample_state) endTurn (G sample_state)
             = \<lparr>turn = 5, currentPlayer = ''2'', numPlayers = 3, winner = None\<rparr>"
    by (simp add: game_flow_def GameFlow_def score_game_def sample_state_def endTurn_def
        to_number_def parse_nat_def is_digit_def digit_value_def digits.simps)
  from END_TURN_delegates_to_flow [OF t, of score_game sample_state sample_state]
  obtain s' where "GameReducer score_game sample_state (Some sample_state) endTurn = Some s'"
    and "ctx s' = game_flow score_game (ctx sample_state) endTurn (G sample_state)"
    and "log s' = log sample_state @ [endTurn]" and "id' s' = id' sample_state + 1"
    and "G s' = G sample_state"
    by blast
  then show ?thesis using t f by (simp add: sample_state_def)
qed

text \<open>
  C6. For every state \<open>s\<close> and every RESTORE action that carries a state \<open>S\<close>, the reducer
  returns \<open>S\<close> itself: nothing of \<open>s\<close> is merged in, nothing is appended to the log and
  \<^verbatim>\<open>_id\<close> is not incremented, whatever \<open>s\<close> is (also for the \<^verbatim>\<open>undefined\<close> state).
\<close>

theorem RESTORE_returns_carried_state:
  assumes "atype a = Str RESTORE" and "rstate a = Some S"
  shows "GameReducer game initial st a = Some S"
  using assms by (simp add: GameReducer_def action_types_distinct)

theorem RESTORE_returns_carried_state_witness:
  "atype (restore sample_state) = Str RESTORE
   \<and> rstate (restore sample_state) = Some sample_state
   \<and> GameReducer score_game won_state (Some won_state) (restore sample_state)
       = Some sample_state"
proof -
  have t: "atype (restore sample_state) = Str RESTORE"
    and r: "rstate (restore sample_state) = Some sample_state"
    by (simp_all add: restore_def)
  from RESTORE_returns_carried_state [OF t r]
  show ?thesis using t r by simp
qed

text \<open>
  C7. For every state \<open>s\<close> and every action whose type is none of MAKE_MOVE, END_TURN and
  RESTORE, the reducer returns \<open>s\<close> itself, unchanged; the result is a state, there is
  no error value.
\<close>

theorem unknown_action_is_identity:
  assumes "atype a \<noteq> Str MAKE_MOVE" and "atype a \<noteq> Str END_TURN" and "atype a \<noteq> Str RESTORE"
  shows "GameReducer game initial (Some s) a = Some s"
  using assms by (simp add: GameReducer_def)

theorem unknown_action_is_identity_witness:
  "atype nope \<noteq> Str MAKE_MOVE \<and> atype nope \<noteq> Str END_TURN \<and> atype nope \<noteq> Str RESTORE
   \<and> GameReducer score_game sample_state (Some sample_state) nope = Some sample_state"
proof -
  have t: "atype nope \<noteq> Str MAKE_MOVE" "atype nope \<noteq> Str END_TURN" "atype nope \<noteq> Str RESTORE"
    by (simp_all add: nope_def MAKE_MOVE_def END_TURN_def RESTORE_def)
  from unknown_action_is_identity [OF t]
  show ?thesis using t by simp
qed

text \<open>
  C8. For every positive player count \<open>n\<close>, initialisation produces a state with
  \<open>ctx = {turn: 0, currentPlayer: "0", numPlayers: n, winner: null}\<close>, \<^verbatim>\<open>_id\<close> 0, an empty
  log and \<^verbatim>\<open>G\<close> equal to \<open>setup(n)\<close>, with the game definition given and with it absent.
  When \<^verbatim>\<open>numPlayers\<close> is absent or 0 it defaults to 2, again in both cases. When the game
  definition is absent a definition takes its place whose setup is the empty object,
  under which a MAKE_MOVE leaves \<^verbatim>\<open>G\<close> as it is and an END_TURN finds no winner.
\<close>

theorem initialize_builds_initial_state:
  "(0 < n \<longrightarrow>
      (\<exists>s. initialize (Some game) (Some n) = Some s
         \<and> ctx s = \<lparr>turn = 0, currentPlayer = ''0'', numPlayers = n, winner = None\<rparr>
         \<and> id' s = 0 \<and> log s = [] \<and> G s = setup' game n)
      \<and> (\<exists>s. initialize None (Some n) = Some s
         \<and> ctx s = \<lparr>turn = 0, currentPlayer = ''0'', numPlayers = n, winner = None\<rparr>
         \<and> id' s = 0 \<and> log s = [] \<and> G s = Obj []))
   \<and> (numPlayers_arg = None \<or> numPlayers_arg = Some 0 \<longrightarrow>
      (\<exists>s. initialize (Some game) numPlayers_arg = Some s
         \<and> ctx s = \<lparr>turn = 0, currentPlayer = ''0'', numPlayers = 2, winner = None\<rparr>
         \<and> id' s = 0 \<and> log s = [] \<and> G s = setup' game 2)
      \<and> (\<exists>s. initialize None numPlayers_arg = Some s
         \<and> ctx s = \<lparr>turn = 0, currentPlayer = ''0'', numPlayers = 2, winner = None\<rparr>
         \<and> id' s = 0 \<and> log s = [] \<and> G s = Obj []))
   \<and> (\<exists>s r. initialize None numPlayers_arg = Some s \<and> G s = Obj []
         \<and> createGameReducer None numPlayers_arg = Some r
         \<and> (\<forall>t a. atype a = Str MAKE_MOVE \<longrightarrow> (\<exists>t'. r (Some t) a = Some t' \<and> G t' = G t))
         \<and> (\<forall>t a. atype a = Str END_TURN \<longrightarrow>
               (\<exists>t'. r (Some t) a = Some t' \<and> winner (ctx t') = None)))"
  by (auto simp: initialize_Some createGameReducer_def game_or_default_def
      numPlayers_or_default_def default_game_def GameReducer_MAKE_MOVE GameReducer_END_TURN
      game_flow_def GameFlow_END_TURN)

theorem initialize_builds_initial_state_witness:
  "(0 :: int) < 3
   \<and> (\<exists>s. initialize (Some score_game) (Some 3) = Some s
         \<and> ctx s = \<lparr>turn = 0, currentPlayer = ''0'', numPlayers = 3, winner = None\<rparr>
         \<and> id' s = 0 \<and> log s = [] \<and> G s = Num (Finite 0))
   \<and> (\<exists>s. initialize None (Some 3) = Some s
         \<and> ctx s = \<lparr>turn = 0, currentPlayer = ''0'', numPlayers = 3, winner = None\<rparr>
         \<and> id' s = 0 \<and> log s = [] \<and> G s = Obj [])
   \<and> (\<exists>s. initialize (Some score_game) (Some 0) = Some s
         \<and> ctx s = \<lparr>turn = 0, currentPlayer = ''0'', numPlayers = 2, winner = None\<rparr>
         \<and> id' s = 0 \<and> log s = [] \<and> G s = Num (Finite 0))
   \<and> (\<exists>s. initialize None None = Some s
         \<and> ctx s = \<lparr>turn = 0, currentPlayer = ''0'', numPlayers = 2, winner = None\<rparr>
         \<and> id' s = 0 \<and> log s = [] \<and> G s = Obj [])"
proof -
  have g: "setup' score_game n = Num (Finite 0)" for n
    by (simp add: score_game_def)
  from initialize_builds_initial_state [of 3 score_game "Some 0"]
    initialize_builds_initial_state [of 3 score_game None]
  show ?thesis by (simp add: g)
qed




text \<open>
  C10. For every game definition and every player count, the \<^verbatim>\<open>_initial\<close> snapshot of the
  freshly initialised state has itself an \<^verbatim>\<open>_initial\<close> field equal to the empty object
  \<^verbatim>\<open>{}\<close>: the copy is taken while \<^verbatim>\<open>_initial\<close> still holds its placeholder. (The values of
  this model are all turned into JSON without an exception, so the statement needs no
  hypothesis on what \<open>setup\<close> returns.)
\<close>

theorem snapshot_holds_placeholder:
  "\<exists>s. initialize game_arg numPlayers_arg = Some s
       \<and> property (initial' s) ''_initial'' = Obj []"
  by (simp add: initialize_Some snapshot_placeholder)

theorem snapshot_holds_placeholder_witness:
  "\<exists>s. initialize (Some score_game) (Some 2) = Some s
       \<and> property (initial' s) ''_initial'' = Obj []"
  by (rule snapshot_holds_placeholder)

end
